theory Spec2Isabelle
  imports Main "HOL-Library.AList" "HOL-Library.Sublist" "HOL-Library.Word"
begin

section \<open>The RechnungsAPI client (index.ts)\<close>

text \<open>
  The repository is one TypeScript module: the class \<open>ApiError\<close>, the function
  \<open>queryParamsToString\<close> and the class \<open>Client\<close>, whose methods each build a URL, call
  \<open>fetch\<close> once and turn the response into a value or a thrown error. The module comes in
  two revisions that differ in one method only: the fuller one also has
  \<open>archiveLedgerTransaction\<close>. The embedding follows the fuller revision and records the
  method list of the other one as well.

  Strings are byte strings (the UTF-8 form of the JavaScript string). A JavaScript
  \<open>number\<close> is a double; the type \<open>number\<close> below keeps the integers a double holds exactly
  apart from all other numbers.
\<close>

subsection \<open>Numbers\<close>

text \<open>
  A \<open>number\<close> is either an integer \<open>n\<close> with \<open>-2^53 \<le> n < 2^53\<close>, held in 54 bits and
  read with \<open>sint\<close>, or any other number: a fraction, an integer outside that range,
  \<open>NaN\<close> or an infinity. Every integer of the range is a double, and
  \<open>Number.prototype.toString\<close> prints it as its decimal numeral. For the other numbers the
  text that \<open>Number.prototype.toString\<close> prints (\<open>1e+21\<close>, \<open>0.5\<close>, \<open>NaN\<close>) is kept as
  it is.
\<close>

datatype number = Integer "54 word" | OtherNumber string

subsection \<open>Errors\<close>

datatype json =
    JNull
  | JBool bool
  | JNumber number
  | JString string
  | JArray "json list"
  | JObject "(string \<times> json) list"

text \<open>The class \<open>ApiError\<close>: two public fields, set by the constructor.\<close>

record ApiError =
  status :: nat
  body :: json

text \<open>
  What a call can throw: an \<open>ApiError\<close> (the only \<open>throw\<close> in the module), the
  \<open>SyntaxError\<close> of \<open>response.json()\<close> on a body that is not JSON, the \<open>TypeError\<close> of a
  method call on \<open>undefined\<close> or \<open>null\<close>, and the rejection of \<open>fetch\<close> itself when no
  response arrives.
\<close>

datatype exn =
    Thrown ApiError
  | SyntaxError
  | TypeError
  | NetworkError

subsection \<open>Number and string rendering\<close>

definition digit :: "nat \<Rightarrow> char" where
  "digit n = ''0123456789'' ! n"

function natToString :: "nat \<Rightarrow> string" where
  "natToString n = (if n < 10 then [digit n] else natToString (n div 10) @ [digit (n mod 10)])"
  by pat_completeness auto
termination
  by (relation "measure id") auto

declare natToString.simps [simp del]

fun Number_toString :: "number \<Rightarrow> string" where
  "Number_toString (Integer k) =
     (if sint k < 0 then ''-'' @ natToString (nat (- sint k)) else natToString (nat (sint k)))"
| "Number_toString (OtherNumber s) = s"

subsection \<open>URLSearchParams\<close>

text \<open>
  The serializer behind \<open>URLSearchParams.prototype.toString\<close> (the WHATWG
  application/x-www-form-urlencoded serializer): a byte is kept when it is an ASCII letter
  or digit or one of \<open>* - . _\<close>, a space becomes \<open>+\<close>, every other byte becomes \<open>%XX\<close>
  in upper-case hexadecimal; name and value are joined by \<open>=\<close>, pairs by \<open>&\<close>.
\<close>

definition hex_digit :: "nat \<Rightarrow> char" where
  "hex_digit n = ''0123456789ABCDEF'' ! n"

definition urlencoded_keep :: "char \<Rightarrow> bool" where
  "urlencoded_keep c \<longleftrightarrow>
     c \<in> set ''ABCDEFGHIJKLMNOPQRSTUVWXYZabcdefghijklmnopqrstuvwxyz0123456789*-._''"

definition urlencode_byte :: "char \<Rightarrow> string" where
  "urlencode_byte c =
     (if c = CHR '' '' then ''+''
      else if urlencoded_keep c then [c]
      else [CHR ''%'', hex_digit (of_char c div 16), hex_digit (of_char c mod 16)])"

definition urlencode :: "string \<Rightarrow> string" where
  "urlencode s = concat (map urlencode_byte s)"

fun join_amp :: "string list \<Rightarrow> string" where
  "join_amp [] = []"
| "join_amp [p] = p"
| "join_amp (p # q # ps) = p @ ''&'' @ join_amp (q # ps)"

definition URLSearchParams_toString :: "(string \<times> string) list \<Rightarrow> string" where
  "URLSearchParams_toString entries =
     join_amp (map (\<lambda>(name, val). urlencode name @ ''='' @ urlencode val) entries)"

text \<open>
  \<open>Object.fromEntries\<close>: the entries are assigned in order to a fresh object; assigning
  to a key that is already there replaces its value and keeps its place. An object is the
  list of its own properties in the order \<open>Object.entries\<close> reports them.
\<close>

definition Object_fromEntries :: "(string \<times> string) list \<Rightarrow> (string \<times> string) list" where
  "Object_fromEntries entries = foldl (\<lambda>obj (k, v). AList.update k v obj) [] entries"

subsection \<open>queryParamsToString\<close>

text \<open>
  A property value as the function can meet it at run time. The declared type is
  \<open>string | number | null\<close>; the optional fields of the list methods' parameter objects
  also let \<open>undefined\<close> through.
\<close>

datatype param = PString string | PNumber number | PNull | PUndefined

type_synonym params = "(string \<times> param) list"

fun toString :: "param \<Rightarrow> exn + string" where
  "toString (PString s) = Inr s"
| "toString (PNumber n) = Inr (Number_toString n)"
| "toString PNull = Inl TypeError"
| "toString PUndefined = Inl TypeError"

text \<open>The arrow function handed to \<open>flatMap\<close>.\<close>

fun entry_callback :: "string \<times> param \<Rightarrow> exn + (string \<times> string) list" where
  "entry_callback (key, val) =
     (if val = PNull then Inr []
      else (case toString val of Inl e \<Rightarrow> Inl e | Inr s \<Rightarrow> Inr [(key, s)]))"

text \<open>\<open>Array.prototype.flatMap\<close> with a callback that may throw: the first throw ends it.\<close>

fun flatMap :: "('a \<Rightarrow> exn + 'b list) \<Rightarrow> 'a list \<Rightarrow> exn + 'b list" where
  "flatMap f [] = Inr []"
| "flatMap f (x # xs) =
     (case f x of
        Inl e \<Rightarrow> Inl e
      | Inr ys \<Rightarrow> (case flatMap f xs of Inl e \<Rightarrow> Inl e | Inr zs \<Rightarrow> Inr (ys @ zs)))"

definition queryParamsToString :: "params option \<Rightarrow> exn + string" where
  "queryParamsToString params =
     (case params of
        None \<Rightarrow> Inr ''''
      | Some ps \<Rightarrow>
          (case flatMap entry_callback ps of
             Inl e \<Rightarrow> Inl e
           | Inr entries \<Rightarrow> Inr (URLSearchParams_toString (Object_fromEntries entries))))"

subsection \<open>The platform: requests, responses and fetch\<close>

datatype http_method = GET | POST | PUT | PATCH | DELETE

text \<open>
  A request body is always the text \<open>JSON.stringify\<close> makes of a value; the text is kept
  symbolic.
\<close>

datatype payload = JSON_stringify json

text \<open>The second argument of \<open>fetch\<close>.\<close>

record init =
  init_method :: "http_method option"
  init_headers :: "(string \<times> string) list"
  init_body :: "payload option"

text \<open>What goes over the wire; \<open>fetch\<close> uses \<open>GET\<close> when no method is given.\<close>

record request =
  url :: string
  verb :: http_method
  req_headers :: "(string \<times> string) list"
  req_body :: "payload option"

text \<open>
  A \<open>Response\<close> object, seen through the members the client touches: \<open>status\<close>,
  the headers, and what \<open>json()\<close>, \<open>text()\<close> and \<open>arrayBuffer()\<close> resolve to.
  \<open>resp_json\<close> is \<open>None\<close> when the body is not valid JSON, where \<open>json()\<close> rejects
  with a \<open>SyntaxError\<close>.
\<close>

record response =
  resp_status :: nat
  resp_headers :: "(string \<times> string) list"
  resp_json :: "json option"
  resp_text :: string
  resp_arrayBuffer :: "nat list"

text \<open>\<open>Response.ok\<close>, as the Fetch standard defines it: the status is in 200..299.\<close>

definition ok :: "response \<Rightarrow> bool" where
  "ok r \<longleftrightarrow> 200 \<le> resp_status r \<and> resp_status r \<le> 299"

datatype outcome = Failed | Responded response

text \<open>
  The world outside the client: the remote service, which answers a request knowing the
  requests that came before, and the log of the requests sent so far.
\<close>

record world =
  service :: "request list \<Rightarrow> request \<Rightarrow> outcome"
  sent :: "request list"

definition fetch :: "string \<Rightarrow> init \<Rightarrow> world \<Rightarrow> (exn + response) \<times> world" where
  "fetch input i w =
     (let req = \<lparr>url = input,
                 verb = (case init_method i of None \<Rightarrow> GET | Some m \<Rightarrow> m),
                 req_headers = init_headers i,
                 req_body = init_body i\<rparr>
      in ((case service w (sent w) req of Failed \<Rightarrow> Inl NetworkError | Responded r \<Rightarrow> Inr r),
          w\<lparr>sent := sent w @ [req]\<rparr>))"

text \<open>\<open>await response.json()\<close>.\<close>

definition Response_json :: "response \<Rightarrow> exn + json" where
  "Response_json r = (case resp_json r of None \<Rightarrow> Inl SyntaxError | Some j \<Rightarrow> Inr j)"

text \<open>\<open>ApiError.fromResponse\<close>: the body is parsed as JSON whatever it is.\<close>

definition fromResponse :: "response \<Rightarrow> exn + ApiError" where
  "fromResponse r =
     (case Response_json r of
        Inl e \<Rightarrow> Inl e
      | Inr b \<Rightarrow> Inr \<lparr>status = resp_status r, body = b\<rparr>)"

text \<open>\<open>throw await ApiError.fromResponse(response)\<close>.\<close>

definition throw_await :: "exn + ApiError \<Rightarrow> exn + 'a" where
  "throw_await p = (case p of Inl e \<Rightarrow> Inl e | Inr a \<Rightarrow> Inl (Thrown a))"

text \<open>Whether a call ended by throwing an \<open>ApiError\<close>.\<close>

fun is_ApiError :: "exn + 'a \<Rightarrow> bool" where
  "is_ApiError (Inl (Thrown a)) = True"
| "is_ApiError r = False"

subsection \<open>The class Client\<close>

record config =
  cfg_apiKey :: string
  cfg_baseUrl :: "string option"

record Client =
  apiKey :: string
  baseUrl :: string

definition Client_new :: "config \<Rightarrow> Client" where
  "Client_new cfg =
     \<lparr>apiKey = cfg_apiKey cfg,
      baseUrl = (case cfg_baseUrl cfg of
                   None \<Rightarrow> ''https://www.rechnungs-api.de/api/v1''
                 | Some b \<Rightarrow> b)\<rparr>"

definition headers :: "Client \<Rightarrow> (string \<times> string) list" where
  "headers this =
     [(''Authorization'', ''ApiKey '' @ apiKey this),
      (''Content-Type'', ''application/json'')]"

definition createDocument :: "Client \<Rightarrow> json \<Rightarrow> world \<Rightarrow> (exn + json) \<times> world" where
  "createDocument this document w =
     (case fetch (baseUrl this @ ''/documents'')
             \<lparr>init_method = Some POST, init_headers = headers this,
              init_body = Some (JSON_stringify document)\<rparr> w of
        (Inl e, w') \<Rightarrow> (Inl e, w')
      | (Inr response, w') \<Rightarrow>
          if \<not> ok response then (throw_await (fromResponse response), w')
          else (Response_json response, w'))"

text \<open>
  \<open>readDocument\<close> has four overload signatures and one implementation. The signatures,
  in the order they are declared: the argument list they accept and the type they promise.
\<close>

datatype format = Json | Xml | Pdf

datatype repr_type = TDocument | TString | TArrayBuffer

definition readDocument_overloads :: "(format option \<times> repr_type) list" where
  "readDocument_overloads =
     [(None, TArrayBuffer),
      (Some Json, TDocument),
      (Some Xml, TString),
      (Some Pdf, TArrayBuffer)]"

text \<open>What the implementation returns: a parsed object, a text or a buffer.\<close>

datatype repr = Parsed json | Text string | Binary "nat list"

fun repr_type_of :: "repr \<Rightarrow> repr_type" where
  "repr_type_of (Parsed d) = TDocument"
| "repr_type_of (Text s) = TString"
| "repr_type_of (Binary b) = TArrayBuffer"

fun format_string :: "format \<Rightarrow> string" where
  "format_string Json = ''json''"
| "format_string Xml = ''xml''"
| "format_string Pdf = ''pdf''"

definition readDocument :: "Client \<Rightarrow> string \<Rightarrow> format option \<Rightarrow> world \<Rightarrow> (exn + repr) \<times> world" where
  "readDocument this id' format_arg w =
     (let format = (case format_arg of None \<Rightarrow> Json | Some f \<Rightarrow> f) in
      case fetch (baseUrl this @ ''/documents/'' @ id' @ ''?format='' @ format_string format)
             \<lparr>init_method = None, init_headers = headers this, init_body = None\<rparr> w of
        (Inl e, w') \<Rightarrow> (Inl e, w')
      | (Inr response, w') \<Rightarrow>
          if \<not> ok response then (throw_await (fromResponse response), w')
          else if format = Xml then (Inr (Text (resp_text response)), w')
          else if format = Pdf then (Inr (Binary (resp_arrayBuffer response)), w')
          else (map_sum id Parsed (Response_json response), w'))"

definition listLedgers :: "Client \<Rightarrow> params \<Rightarrow> world \<Rightarrow> (exn + json) \<times> world" where
  "listLedgers this queryParams w =
     (case queryParamsToString (Some queryParams) of
        Inl e \<Rightarrow> (Inl e, w)
      | Inr query \<Rightarrow>
          (case fetch (baseUrl this @ ''/ledgers?'' @ query)
                  \<lparr>init_method = None, init_headers = headers this, init_body = None\<rparr> w of
             (Inl e, w') \<Rightarrow> (Inl e, w')
           | (Inr response, w') \<Rightarrow>
               if \<not> ok response then (throw_await (fromResponse response), w')
               else (Response_json response, w')))"

definition createLedger :: "Client \<Rightarrow> world \<Rightarrow> (exn + json) \<times> world" where
  "createLedger this w =
     (case fetch (baseUrl this @ ''/ledgers'')
             \<lparr>init_method = Some POST, init_headers = headers this, init_body = Some (JSON_stringify (JObject []))\<rparr> w of
        (Inl e, w') \<Rightarrow> (Inl e, w')
      | (Inr response, w') \<Rightarrow>
          if \<not> ok response then (throw_await (fromResponse response), w')
          else (Response_json response, w'))"

definition deleteLedger :: "Client \<Rightarrow> string \<Rightarrow> world \<Rightarrow> (exn + json) \<times> world" where
  "deleteLedger this ledgerId w =
     (case fetch (baseUrl this @ ''/ledgers/'' @ ledgerId)
             \<lparr>init_method = Some DELETE, init_headers = headers this, init_body = None\<rparr> w of
        (Inl e, w') \<Rightarrow> (Inl e, w')
      | (Inr response, w') \<Rightarrow>
          if \<not> ok response then (throw_await (fromResponse response), w')
          else (Response_json response, w'))"

definition listLedgerAccounts :: "Client \<Rightarrow> string \<Rightarrow> params \<Rightarrow> world \<Rightarrow> (exn + json) \<times> world" where
  "listLedgerAccounts this ledgerId queryParams w =
     (case queryParamsToString (Some queryParams) of
        Inl e \<Rightarrow> (Inl e, w)
      | Inr query \<Rightarrow>
          (case fetch (baseUrl this @ ''/ledgers/'' @ ledgerId @ ''/accounts?'' @ query)
                  \<lparr>init_method = None, init_headers = headers this, init_body = None\<rparr> w of
             (Inl e, w') \<Rightarrow> (Inl e, w')
           | (Inr response, w') \<Rightarrow>
               if \<not> ok response then (throw_await (fromResponse response), w')
               else (Response_json response, w')))"

definition createLedgerAccount :: "Client \<Rightarrow> string \<Rightarrow> json \<Rightarrow> world \<Rightarrow> (exn + json) \<times> world" where
  "createLedgerAccount this ledgerId account w =
     (case fetch (baseUrl this @ ''/ledgers/'' @ ledgerId @ ''/accounts'')
             \<lparr>init_method = Some POST, init_headers = headers this, init_body = Some (JSON_stringify account)\<rparr> w of
        (Inl e, w') \<Rightarrow> (Inl e, w')
      | (Inr response, w') \<Rightarrow>
          if \<not> ok response then (throw_await (fromResponse response), w')
          else (Response_json response, w'))"

definition listLedgerTransactions :: "Client \<Rightarrow> string \<Rightarrow> params \<Rightarrow> world \<Rightarrow> (exn + json) \<times> world" where
  "listLedgerTransactions this ledgerId queryParams w =
     (case queryParamsToString (Some queryParams) of
        Inl e \<Rightarrow> (Inl e, w)
      | Inr query \<Rightarrow>
          (case fetch (baseUrl this @ ''/ledgers/'' @ ledgerId @ ''/transactions?'' @ query)
                  \<lparr>init_method = None, init_headers = headers this, init_body = None\<rparr> w of
             (Inl e, w') \<Rightarrow> (Inl e, w')
           | (Inr response, w') \<Rightarrow>
               if \<not> ok response then (throw_await (fromResponse response), w')
               else (Response_json response, w')))"

definition createLedgerTransaction :: "Client \<Rightarrow> string \<Rightarrow> json \<Rightarrow> world \<Rightarrow> (exn + json) \<times> world" where
  "createLedgerTransaction this ledgerId transaction w =
     (case fetch (baseUrl this @ ''/ledgers/'' @ ledgerId @ ''/transactions'')
             \<lparr>init_method = Some POST, init_headers = headers this, init_body = Some (JSON_stringify transaction)\<rparr> w of
        (Inl e, w') \<Rightarrow> (Inl e, w')
      | (Inr response, w') \<Rightarrow>
          if \<not> ok response then (throw_await (fromResponse response), w')
          else (Response_json response, w'))"

text \<open>
  \<open>archiveLedgerTransaction\<close>, the method only the fuller revision has. Its doc comment:
  it archives a transaction by creating a new transaction that reverses the archived one,
  and returns the newly created transaction.
\<close>

definition archiveLedgerTransaction :: "Client \<Rightarrow> string \<Rightarrow> number \<Rightarrow> world \<Rightarrow> (exn + json) \<times> world" where
  "archiveLedgerTransaction this ledgerId transactionNumber w =
     (case fetch (baseUrl this @ ''/ledgers/'' @ ledgerId @ ''/transactions/''
               @ Number_toString transactionNumber)
             \<lparr>init_method = Some DELETE, init_headers = headers this, init_body = None\<rparr> w of
        (Inl e, w') \<Rightarrow> (Inl e, w')
      | (Inr response, w') \<Rightarrow>
          if \<not> ok response then (throw_await (fromResponse response), w')
          else (Response_json response, w'))"

definition listLedgerBalances :: "Client \<Rightarrow> string \<Rightarrow> params option \<Rightarrow> world \<Rightarrow> (exn + json) \<times> world" where
  "listLedgerBalances this ledgerId queryParams w =
     (case queryParamsToString queryParams of
        Inl e \<Rightarrow> (Inl e, w)
      | Inr query \<Rightarrow>
          (case fetch (baseUrl this @ ''/ledgers/'' @ ledgerId @ ''/balances?'' @ query)
                  \<lparr>init_method = None, init_headers = headers this, init_body = None\<rparr> w of
             (Inl e, w') \<Rightarrow> (Inl e, w')
           | (Inr response, w') \<Rightarrow>
               if \<not> ok response then (throw_await (fromResponse response), w')
               else (Response_json response, w')))"

subsection \<open>The public surface, and a caller\<close>

text \<open>
  A call is one public method of \<open>Client\<close> with its arguments; these eleven are all the
  public methods of the class. \<open>invoke\<close> makes the call, \<open>run\<close> makes several calls on
  the same object, one after the other. No method body assigns to \<open>this.apiKey\<close> or
  \<open>this.baseUrl\<close>, so a method reads the object and hands no new one back.
\<close>

datatype call =
    CreateDocument json
  | ReadDocument string "format option"
  | ListLedgers params
  | CreateLedger
  | DeleteLedger string
  | ListLedgerAccounts string params
  | CreateLedgerAccount string json
  | ListLedgerTransactions string params
  | CreateLedgerTransaction string json
  | ArchiveLedgerTransaction string number
  | ListLedgerBalances string "params option"




definition as_parsed :: "(exn + json) \<times> world \<Rightarrow> (exn + repr) \<times> world" where
  "as_parsed p = (case p of (r, w') \<Rightarrow> (map_sum id Parsed r, w'))"

fun invoke :: "Client \<Rightarrow> call \<Rightarrow> world \<Rightarrow> (exn + repr) \<times> world" where
  "invoke this (CreateDocument d) w = as_parsed (createDocument this d w)"
| "invoke this (ReadDocument i f) w = readDocument this i f w"
| "invoke this (ListLedgers q) w = as_parsed (listLedgers this q w)"
| "invoke this CreateLedger w = as_parsed (createLedger this w)"
| "invoke this (DeleteLedger l) w = as_parsed (deleteLedger this l w)"
| "invoke this (ListLedgerAccounts l q) w = as_parsed (listLedgerAccounts this l q w)"
| "invoke this (CreateLedgerAccount l a) w = as_parsed (createLedgerAccount this l a w)"
| "invoke this (ListLedgerTransactions l q) w = as_parsed (listLedgerTransactions this l q w)"
| "invoke this (CreateLedgerTransaction l t) w = as_parsed (createLedgerTransaction this l t w)"
| "invoke this (ArchiveLedgerTransaction l n) w = as_parsed (archiveLedgerTransaction this l n w)"
| "invoke this (ListLedgerBalances l q) w = as_parsed (listLedgerBalances this l q w)"

fun run :: "Client \<Rightarrow> call list \<Rightarrow> world \<Rightarrow> (exn + repr) list \<times> world" where
  "run this [] w = ([], w)"
| "run this (c # cs) w =
     (case invoke this c w of
        (r, w') \<Rightarrow> (case run this cs w' of (rs, w'') \<Rightarrow> (r # rs, w'')))"

text \<open>The requests a step added to the log.\<close>

definition issued :: "world \<Rightarrow> world \<Rightarrow> request list" where
  "issued w w' = drop (length (sent w)) (sent w')"

subsection \<open>Reading a query string back\<close>







subsection \<open>The exchange every method performs\<close>

text \<open>
  Every method body ends the same way: one \<open>fetch\<close>, then \<open>throw\<close> when the response is
  not \<open>ok\<close>, else decode. \<open>settle\<close> is that tail for a request already built, and
  \<open>request_of\<close> is the request each call builds (or the error it throws before it gets
  to \<open>fetch\<close>). Both are read off the method bodies and proved equal to them below
  (\<open>invoke_settle\<close>).
\<close>

definition settle :: "(response \<Rightarrow> exn + 'a) \<Rightarrow> request \<Rightarrow> world \<Rightarrow> (exn + 'a) \<times> world" where
  "settle decode req w =
     ((case service w (sent w) req of
         Failed \<Rightarrow> Inl NetworkError
       | Responded r \<Rightarrow> if \<not> ok r then throw_await (fromResponse r) else decode r),
      w\<lparr>sent := sent w @ [req]\<rparr>)"

definition get_request :: "Client \<Rightarrow> string \<Rightarrow> request" where
  "get_request this u = \<lparr>url = u, verb = GET, req_headers = headers this, req_body = None\<rparr>"

definition delete_request :: "Client \<Rightarrow> string \<Rightarrow> request" where
  "delete_request this u = \<lparr>url = u, verb = DELETE, req_headers = headers this, req_body = None\<rparr>"

definition post_request :: "Client \<Rightarrow> string \<Rightarrow> json \<Rightarrow> request" where
  "post_request this u j =
     \<lparr>url = u, verb = POST, req_headers = headers this, req_body = Some (JSON_stringify j)\<rparr>"

fun request_of :: "Client \<Rightarrow> call \<Rightarrow> exn + request" where
  "request_of this (CreateDocument d) = Inr (post_request this (baseUrl this @ ''/documents'') d)"
| "request_of this (ReadDocument i f) =
     Inr (get_request this (baseUrl this @ ''/documents/'' @ i @ ''?format=''
            @ format_string (case f of None \<Rightarrow> Json | Some g \<Rightarrow> g)))"
| "request_of this (ListLedgers q) =
     map_sum id (\<lambda>s. get_request this (baseUrl this @ ''/ledgers?'' @ s))
       (queryParamsToString (Some q))"
| "request_of this CreateLedger = Inr (post_request this (baseUrl this @ ''/ledgers'') (JObject []))"
| "request_of this (DeleteLedger l) = Inr (delete_request this (baseUrl this @ ''/ledgers/'' @ l))"
| "request_of this (ListLedgerAccounts l q) =
     map_sum id (\<lambda>s. get_request this (baseUrl this @ ''/ledgers/'' @ l @ ''/accounts?'' @ s))
       (queryParamsToString (Some q))"
| "request_of this (CreateLedgerAccount l a) =
     Inr (post_request this (baseUrl this @ ''/ledgers/'' @ l @ ''/accounts'') a)"
| "request_of this (ListLedgerTransactions l q) =
     map_sum id (\<lambda>s. get_request this (baseUrl this @ ''/ledgers/'' @ l @ ''/transactions?'' @ s))
       (queryParamsToString (Some q))"
| "request_of this (CreateLedgerTransaction l t) =
     Inr (post_request this (baseUrl this @ ''/ledgers/'' @ l @ ''/transactions'') t)"
| "request_of this (ArchiveLedgerTransaction l n) =
     Inr (delete_request this (baseUrl this @ ''/ledgers/'' @ l @ ''/transactions/''
            @ Number_toString n))"
| "request_of this (ListLedgerBalances l q) =
     map_sum id (\<lambda>s. get_request this (baseUrl this @ ''/ledgers/'' @ l @ ''/balances?'' @ s))
       (queryParamsToString q)"

text \<open>
  The decoding the specification gives for \<open>readDocument\<close>, in its words: json to object,
  xml to text, pdf to binary.
\<close>

fun decoding_of_format :: "format \<Rightarrow> response \<Rightarrow> exn + repr" where
  "decoding_of_format Json r = map_sum id Parsed (Response_json r)"
| "decoding_of_format Xml r = Inr (Text (resp_text r))"
| "decoding_of_format Pdf r = Inr (Binary (resp_arrayBuffer r))"

fun decode_of :: "call \<Rightarrow> response \<Rightarrow> exn + repr" where
  "decode_of (ReadDocument i f) = decoding_of_format (case f of None \<Rightarrow> Json | Some g \<Rightarrow> g)"
| "decode_of c = (\<lambda>r. map_sum id Parsed (Response_json r))"

text \<open>
  The pairs the specification wants in the query string, in its words: those whose value
  is neither absent nor null, each value stringified.
\<close>

definition present_pairs :: "params \<Rightarrow> (string \<times> string) list" where
  "present_pairs ps =
     concat (map (\<lambda>(k, v). case v of
                      PString s \<Rightarrow> [(k, s)]
                    | PNumber n \<Rightarrow> [(k, Number_toString n)]
                    | PNull \<Rightarrow> []
                    | PUndefined \<Rightarrow> []) ps)"

subsection \<open>Generated types\<close>


subsection \<open>Concrete inputs\<close>

definition example_client :: Client where
  "example_client = Client_new \<lparr>cfg_apiKey = ''secret'', cfg_baseUrl = None\<rparr>"

text \<open>A 200 response whose body is the JSON text \<open>{}\<close>.\<close>

definition ok_response :: response where
  "ok_response =
     \<lparr>resp_status = 200,
      resp_headers = [(''content-type'', ''application/json'')],
      resp_json = Some (JObject []),
      resp_text = ''{}'',
      resp_arrayBuffer = [123, 125]\<rparr>"

text \<open>A 404 response with a JSON body, and a 502 response from a proxy with an HTML body.\<close>

definition not_found_response :: response where
  "not_found_response =
     \<lparr>resp_status = 404,
      resp_headers = [(''content-type'', ''application/json'')],
      resp_json = Some (JObject []),
      resp_text = ''{}'',
      resp_arrayBuffer = [123, 125]\<rparr>"

definition bad_gateway_response :: response where
  "bad_gateway_response =
     \<lparr>resp_status = 502,
      resp_headers = [(''content-type'', ''text/html'')],
      resp_json = None,
      resp_text = ''<h1>'',
      resp_arrayBuffer = [60, 104, 49, 62]\<rparr>"

text \<open>
  A 200 response with an XML body, and a 200 response whose body is a transaction with the
  number 42.
\<close>

definition xml_response :: response where
  "xml_response =
     \<lparr>resp_status = 200,
      resp_headers = [(''content-type'', ''application/xml'')],
      resp_json = None,
      resp_text = ''<inv/>'',
      resp_arrayBuffer = [60, 105, 110, 118, 47, 62]\<rparr>"

definition original_transaction_response :: response where
  \<open>original_transaction_response =
     \<lparr>resp_status = 200,
      resp_headers = [(''content-type'', ''application/json'')],
      resp_json = Some (JObject [(''number'', JNumber (Integer 42))]),
      resp_text = ''{"number":42}'',
      resp_arrayBuffer = [123, 34, 110, 117, 109, 98, 101, 114, 34, 58, 52, 50, 125]\<rparr>\<close>

text \<open>A service that answers every request with the same response, and an empty log.\<close>

definition answering :: "response \<Rightarrow> world" where
  "answering r = \<lparr>service = (\<lambda>history req. Responded r), sent = []\<rparr>"

section \<open>Lemmas\<close>

subsection \<open>The query string\<close>























lemma flatMap_defined:
  "\<forall>(k, v)\<in>set ps. v \<noteq> PUndefined \<Longrightarrow> flatMap entry_callback ps = Inr (present_pairs ps)"
proof (induction ps)
  case Nil
  show ?case by (simp add: present_pairs_def)
next
  case (Cons p ps)
  obtain k v where p: "p = (k, v)" by (cases p)
  have v: "v \<noteq> PUndefined" using Cons.prems p by auto
  have rest: "flatMap entry_callback ps = Inr (present_pairs ps)"
    using Cons by simp
  show ?case
    using v rest p by (cases v) (simp_all add: present_pairs_def)
qed

lemma flatMap_undefined:
  "(k, PUndefined) \<in> set ps \<Longrightarrow> flatMap entry_callback ps = Inl TypeError"
proof (induction ps)
  case Nil
  then show ?case by simp
next
  case (Cons p ps)
  obtain k' v where p: "p = (k', v)" by (cases p)
  show ?case
  proof (cases "v = PUndefined")
    case True
    then show ?thesis using p by simp
  next
    case False
    then have "(k, PUndefined) \<in> set ps" using Cons.prems p by auto
    then have "flatMap entry_callback ps = Inl TypeError" by (rule Cons.IH)
    then show ?thesis using p by (cases v) simp_all
  qed
qed




lemma queryParamsToString_fault_iff:
  "queryParamsToString (Some ps) = Inl TypeError \<longleftrightarrow> (\<exists>k. (k, PUndefined) \<in> set ps)"
proof
  assume f: "queryParamsToString (Some ps) = Inl TypeError"
  show "\<exists>k. (k, PUndefined) \<in> set ps"
  proof (rule ccontr)
    assume "\<not> (\<exists>k. (k, PUndefined) \<in> set ps)"
    then have "\<forall>(k, v)\<in>set ps. v \<noteq> PUndefined" by auto
    then have "flatMap entry_callback ps = Inr (present_pairs ps)" by (rule flatMap_defined)
    with f show False by (simp add: queryParamsToString_def)
  qed
next
  assume "\<exists>k. (k, PUndefined) \<in> set ps"
  then obtain k where "(k, PUndefined) \<in> set ps" ..
  then have "flatMap entry_callback ps = Inl TypeError" by (rule flatMap_undefined)
  then show "queryParamsToString (Some ps) = Inl TypeError"
    by (simp add: queryParamsToString_def)
qed

subsection \<open>The exchange\<close>

lemma settle_fetch:
  "(case fetch u i w of
      (Inl e, w') \<Rightarrow> (Inl e, w')
    | (Inr response, w') \<Rightarrow>
        if \<not> ok response then (throw_await (fromResponse response), w')
        else (decode response, w')) =
   settle decode \<lparr>url = u, verb = (case init_method i of None \<Rightarrow> GET | Some m \<Rightarrow> m),
                  req_headers = init_headers i, req_body = init_body i\<rparr> w"
  by (simp add: fetch_def settle_def Let_def split: outcome.splits)

lemma as_parsed_settle:
  "as_parsed (settle Response_json req w) = settle (\<lambda>r. map_sum id Parsed (Response_json r)) req w"
  by (simp add: as_parsed_def settle_def throw_await_def split: outcome.splits sum.splits)

lemma as_parsed_Inl: "as_parsed (Inl e, w) = (Inl e, w)"
  by (simp add: as_parsed_def)

lemma readDocument_settle:
  "readDocument this i f w =
   settle (decoding_of_format (case f of None \<Rightarrow> Json | Some g \<Rightarrow> g))
     (get_request this (baseUrl this @ ''/documents/'' @ i @ ''?format=''
        @ format_string (case f of None \<Rightarrow> Json | Some g \<Rightarrow> g))) w"
proof -
  let ?g = "case f of None \<Rightarrow> Json | Some g \<Rightarrow> g"
  show ?thesis
    unfolding readDocument_def Let_def
    by (cases ?g)
      (simp_all add: fetch_def settle_def get_request_def Let_def split: outcome.splits)
qed

lemma invoke_settle:
  "invoke this c w =
   (case request_of this c of
      Inl e \<Rightarrow> (Inl e, w)
    | Inr req \<Rightarrow> settle (decode_of c) req w)"
proof (cases c)
  case (ReadDocument i f)
  then show ?thesis by (simp add: readDocument_settle)
next
  case (ListLedgers q)
  then show ?thesis
    by (cases "queryParamsToString (Some q)")
      (simp_all add: listLedgers_def settle_fetch as_parsed_settle get_request_def as_parsed_Inl)
next
  case (ListLedgerAccounts l q)
  then show ?thesis
    by (cases "queryParamsToString (Some q)")
      (simp_all add: listLedgerAccounts_def settle_fetch as_parsed_settle get_request_def as_parsed_Inl)
next
  case (ListLedgerTransactions l q)
  then show ?thesis
    by (cases "queryParamsToString (Some q)")
      (simp_all add: listLedgerTransactions_def settle_fetch as_parsed_settle get_request_def as_parsed_Inl)
next
  case (ListLedgerBalances l q)
  then show ?thesis
    by (cases "queryParamsToString q")
      (simp_all add: listLedgerBalances_def settle_fetch as_parsed_settle get_request_def as_parsed_Inl)
qed (simp_all add: createDocument_def createLedger_def deleteLedger_def createLedgerAccount_def
      createLedgerTransaction_def archiveLedgerTransaction_def settle_fetch as_parsed_settle
      post_request_def delete_request_def)

lemma invoke_issued:
  "invoke this c w = (res, w') \<Longrightarrow>
   issued w w' = (case request_of this c of Inl e \<Rightarrow> [] | Inr req \<Rightarrow> [req])"
  by (auto simp: invoke_settle settle_def issued_def split: sum.splits)

lemma invoke_sent:
  "invoke this c w = (res, w') \<Longrightarrow> sent w' = sent w @ issued w w'"
  by (auto simp: invoke_settle settle_def issued_def split: sum.splits)

lemma invoke_request:
  assumes "invoke this c w = (res, w')" and "req \<in> set (issued w w')"
  shows "request_of this c = Inr req" and "issued w w' = [req]"
    and "res = fst (settle (decode_of c) req w)"
proof -
  from assms(2) invoke_issued [OF assms(1)] show r: "request_of this c = Inr req"
    by (cases "request_of this c") simp_all
  with invoke_issued [OF assms(1)] show "issued w w' = [req]" by simp
  from assms(1) r show "res = fst (settle (decode_of c) req w)"
    by (simp add: invoke_settle)
qed

lemma map_sum_id_Inr: "map_sum id g x = Inr y \<longleftrightarrow> (\<exists>s. x = Inr s \<and> y = g s)"
  by (cases x) auto

lemma request_of_headers: "request_of this c = Inr req \<Longrightarrow> req_headers req = headers this"
  by (cases c) (auto simp: get_request_def post_request_def delete_request_def map_sum_id_Inr)

lemma request_of_url: "request_of this c = Inr req \<Longrightarrow> prefix (baseUrl this @ ''/'') (url req)"
  by (cases c) (auto simp: get_request_def post_request_def delete_request_def map_sum_id_Inr)


lemma settle_not_ok:
  "service w (sent w) req = Responded r \<Longrightarrow> \<not> ok r \<Longrightarrow>
   fst (settle decode req w) =
     (case resp_json r of None \<Rightarrow> Inl SyntaxError
      | Some b \<Rightarrow> Inl (Thrown \<lparr>status = resp_status r, body = b\<rparr>))"
  by (simp add: settle_def throw_await_def fromResponse_def Response_json_def split: option.splits)

lemma run_sent:
  "run this cs w = (rs, w') \<Longrightarrow>
   \<exists>new. sent w' = sent w @ new \<and> (\<forall>req\<in>set new. \<exists>c\<in>set cs. request_of this c = Inr req)"
proof (induction cs arbitrary: w rs)
  case Nil
  then show ?case by simp
next
  case (Cons c cs)
  obtain r w1 where step: "invoke this c w = (r, w1)" by (cases "invoke this c w")
  obtain rs1 where rest: "run this cs w1 = (rs1, w')"
    using Cons.prems step by (auto split: prod.splits)
  have s1: "sent w1 = sent w @ issued w w1" by (rule invoke_sent [OF step])
  have i1: "\<forall>req\<in>set (issued w w1). request_of this c = Inr req"
    using invoke_request(1) [OF step] by blast
  from Cons.IH [OF rest] obtain new where
    n: "sent w' = sent w1 @ new" "\<forall>req\<in>set new. \<exists>c\<in>set cs. request_of this c = Inr req"
    by blast
  have "sent w' = sent w @ (issued w w1 @ new)" using s1 n(1) by simp
  moreover have "\<forall>req\<in>set (issued w w1 @ new). \<exists>d\<in>set (c # cs). request_of this d = Inr req"
    using i1 n(2) by auto
  ultimately show ?case by blast
qed

lemma run_issued:
  assumes "run this cs w = (rs, w')" and "req \<in> set (issued w w')"
  shows "\<exists>c\<in>set cs. request_of this c = Inr req"
proof -
  from run_sent [OF assms(1)] obtain new where
    n: "sent w' = sent w @ new" "\<forall>req\<in>set new. \<exists>c\<in>set cs. request_of this c = Inr req"
    by blast
  have "issued w w' = new" using n(1) by (simp add: issued_def)
  with assms(2) n(2) show ?thesis by blast
qed

subsection \<open>Concrete inputs and small facts\<close>

lemma example_baseUrl: "baseUrl example_client = ''https://www.rechnungs-api.de/api/v1''"
  by (simp add: example_client_def Client_new_def)

lemma answering_simps:
  "service (answering r) h q = Responded r" "sent (answering r) = []"
  by (simp_all add: answering_def)

lemma ok_examples: "ok ok_response" "\<not> ok not_found_response" "\<not> ok bad_gateway_response"
  by (simp_all add: ok_def ok_response_def not_found_response_def bad_gateway_response_def)

lemma issued_settle: "issued w (snd (settle d req w)) = [req]"
  by (simp add: settle_def issued_def)

lemma headers_Authorization:
  "map_of (headers this) ''Authorization'' = Some (''ApiKey '' @ apiKey this)"
  by (simp add: headers_def)

lemma Client_new_simps:
  "apiKey (Client_new cfg) = cfg_apiKey cfg"
  "baseUrl (Client_new cfg) =
     (case cfg_baseUrl cfg of None \<Rightarrow> ''https://www.rechnungs-api.de/api/v1'' | Some b \<Rightarrow> b)"
  by (simp_all add: Client_new_def)

lemma ok_more_examples: "ok xml_response" "ok original_transaction_response"
  by (simp_all add: ok_def xml_response_def original_transaction_response_def)



section \<open>The claims\<close>

subsection \<open>The query string (C4, C10)\<close>




text \<open>
  C10. \<open>queryParamsToString\<close> throws a \<open>TypeError\<close> exactly when some value of the
  record is \<open>undefined\<close>: only \<open>null\<close> is filtered, and \<open>toString\<close> is then called on
  \<open>undefined\<close>. A list method given such a record throws before it sends anything. The
  function returns a string exactly when every value is a string, a number or null.
\<close>

theorem queryParamsToString_undefined_faults:
  "(queryParamsToString (Some ps) = Inl TypeError \<longleftrightarrow> (\<exists>k. (k, PUndefined) \<in> set ps))
   \<and> ((\<exists>k. (k, PUndefined) \<in> set ps) \<longrightarrow> listLedgers this ps w = (Inl TypeError, w))
   \<and> ((\<exists>q. queryParamsToString (Some ps) = Inr q) \<longleftrightarrow>
        (\<forall>(k, v)\<in>set ps. (\<exists>s. v = PString s) \<or> (\<exists>n. v = PNumber n) \<or> v = PNull))"
proof -
  have typed: "(\<forall>(k, v)\<in>set ps. (\<exists>s. v = PString s) \<or> (\<exists>n. v = PNumber n) \<or> v = PNull)
      \<longleftrightarrow> (\<forall>(k, v)\<in>set ps. v \<noteq> PUndefined)"
  proof -
    have "\<And>v. ((\<exists>s. v = PString s) \<or> (\<exists>n. v = PNumber n) \<or> v = PNull) \<longleftrightarrow> v \<noteq> PUndefined"
      by (case_tac v) simp_all
    then show ?thesis by simp
  qed
  have a: "queryParamsToString (Some ps) = Inl TypeError \<longleftrightarrow> (\<exists>k. (k, PUndefined) \<in> set ps)"
    by (rule queryParamsToString_fault_iff)
  have b: "(\<exists>k. (k, PUndefined) \<in> set ps) \<longrightarrow> listLedgers this ps w = (Inl TypeError, w)"
    using a by (auto simp: listLedgers_def)
  have c: "(\<exists>q. queryParamsToString (Some ps) = Inr q) \<longleftrightarrow> (\<forall>(k, v)\<in>set ps. v \<noteq> PUndefined)"
  proof
    assume "\<exists>q. queryParamsToString (Some ps) = Inr q"
    then have "\<not> (\<exists>k. (k, PUndefined) \<in> set ps)" using a by auto
    then show "\<forall>(k, v)\<in>set ps. v \<noteq> PUndefined" by auto
  next
    assume "\<forall>(k, v)\<in>set ps. v \<noteq> PUndefined"
    then have "flatMap entry_callback ps = Inr (present_pairs ps)" by (rule flatMap_defined)
    then show "\<exists>q. queryParamsToString (Some ps) = Inr q"
      by (simp add: queryParamsToString_def)
  qed
  from a b c typed show ?thesis by blast
qed

theorem queryParamsToString_undefined_faults_witness:
  "queryParamsToString (Some [(''limit'', PUndefined), (''cursor'', PNull)]) = Inl TypeError
   \<and> listLedgers example_client [(''limit'', PUndefined), (''cursor'', PNull)] (answering ok_response)
       = (Inl TypeError, answering ok_response)
   \<and> (\<exists>q. queryParamsToString (Some [(''limit'', PNumber (Integer 10)), (''cursor'', PNull)]) = Inr q)"
  using queryParamsToString_undefined_faults
      [of "[(''limit'', PUndefined), (''cursor'', PNull)]" example_client "answering ok_response"]
    queryParamsToString_undefined_faults
      [of "[(''limit'', PNumber (Integer 10)), (''cursor'', PNull)]" example_client "answering ok_response"]
  by simp

subsection \<open>Decoding a successful response (C1, C2)\<close>

text \<open>
  C1. \<open>readDocument\<close> sends one \<open>GET\<close> for the document with the format in the query
  string, and when the response to it is successful, what the call returns is fixed by the
  format argument alone: for json the outcome of \<open>response.json()\<close> (the parsed
  document), for xml the response text, for pdf the raw buffer. Any other successful
  response with the same body, whatever its headers and status, gives the same result,
  and the kind of the result follows the format.
\<close>

theorem readDocument_decoding_by_format:
  assumes "service w (sent w)
             \<lparr>url = baseUrl this @ ''/documents/'' @ i @ ''?format=''
                      @ format_string (case f of None \<Rightarrow> Json | Some g \<Rightarrow> g),
              verb = GET, req_headers = headers this, req_body = None\<rparr> = Responded r"
    and "ok r"
  shows "readDocument this i f w =
           (decoding_of_format (case f of None \<Rightarrow> Json | Some g \<Rightarrow> g) r,
            w\<lparr>sent := sent w @
               [\<lparr>url = baseUrl this @ ''/documents/'' @ i @ ''?format=''
                         @ format_string (case f of None \<Rightarrow> Json | Some g \<Rightarrow> g),
                 verb = GET, req_headers = headers this, req_body = None\<rparr>]\<rparr>)
       \<and> (\<forall>w2 r2.
             service w2 (sent w2)
               \<lparr>url = baseUrl this @ ''/documents/'' @ i @ ''?format=''
                        @ format_string (case f of None \<Rightarrow> Json | Some g \<Rightarrow> g),
                verb = GET, req_headers = headers this, req_body = None\<rparr> = Responded r2
             \<and> ok r2 \<and> resp_json r2 = resp_json r \<and> resp_text r2 = resp_text r
             \<and> resp_arrayBuffer r2 = resp_arrayBuffer r
             \<longrightarrow> fst (readDocument this i f w2) = fst (readDocument this i f w))
       \<and> (\<forall>v. fst (readDocument this i f w) = Inr v \<longrightarrow>
             repr_type_of v = (case (case f of None \<Rightarrow> Json | Some g \<Rightarrow> g) of
                                 Json \<Rightarrow> TDocument | Xml \<Rightarrow> TString | Pdf \<Rightarrow> TArrayBuffer))"
proof -
  let ?g = "case f of None \<Rightarrow> Json | Some g \<Rightarrow> g"
  let ?req = "\<lparr>url = baseUrl this @ ''/documents/'' @ i @ ''?format='' @ format_string ?g,
               verb = GET, req_headers = headers this, req_body = None\<rparr>"
  have run: "readDocument this i f w' =
      (decoding_of_format ?g r', w'\<lparr>sent := sent w' @ [?req]\<rparr>)"
    if "service w' (sent w') ?req = Responded r'" and "ok r'" for w' r'
    using that by (simp add: readDocument_settle settle_def get_request_def)
  have same: "decoding_of_format ?g r2 = decoding_of_format ?g r"
    if "resp_json r2 = resp_json r" and "resp_text r2 = resp_text r"
      and "resp_arrayBuffer r2 = resp_arrayBuffer r" for r2
    using that by (cases ?g) (simp_all add: Response_json_def)
  have one: "readDocument this i f w = (decoding_of_format ?g r, w\<lparr>sent := sent w @ [?req]\<rparr>)"
    by (rule run [OF assms])
  have two: "\<forall>w2 r2. service w2 (sent w2) ?req = Responded r2
      \<and> ok r2 \<and> resp_json r2 = resp_json r \<and> resp_text r2 = resp_text r
      \<and> resp_arrayBuffer r2 = resp_arrayBuffer r
      \<longrightarrow> fst (readDocument this i f w2) = fst (readDocument this i f w)"
  proof (intro allI impI)
    fix w2 :: world and r2 :: response
    assume h: "service w2 (sent w2) ?req = Responded r2
      \<and> ok r2 \<and> resp_json r2 = resp_json r \<and> resp_text r2 = resp_text r
      \<and> resp_arrayBuffer r2 = resp_arrayBuffer r"
    then have "readDocument this i f w2 =
        (decoding_of_format ?g r2, w2\<lparr>sent := sent w2 @ [?req]\<rparr>)"
      using run [of w2 r2] by blast
    moreover have "decoding_of_format ?g r2 = decoding_of_format ?g r"
      using h same [of r2] by blast
    ultimately show "fst (readDocument this i f w2) = fst (readDocument this i f w)"
      by (simp only: one fst_conv)
  qed
  have three: "\<forall>v. fst (readDocument this i f w) = Inr v \<longrightarrow>
      repr_type_of v = (case ?g of Json \<Rightarrow> TDocument | Xml \<Rightarrow> TString | Pdf \<Rightarrow> TArrayBuffer)"
  proof (intro allI impI)
    fix v
    assume "fst (readDocument this i f w) = Inr v"
    then have v: "decoding_of_format ?g r = Inr v" by (simp only: one fst_conv)
    show "repr_type_of v = (case ?g of Json \<Rightarrow> TDocument | Xml \<Rightarrow> TString | Pdf \<Rightarrow> TArrayBuffer)"
    proof (cases ?g)
      case Json
      with v show ?thesis by (auto simp: map_sum_id_Inr)
    next
      case Xml
      with v show ?thesis by auto
    next
      case Pdf
      with v show ?thesis by auto
    qed
  qed
  from one two three show ?thesis by blast
qed

theorem readDocument_decoding_by_format_witness:
  "readDocument example_client ''doc_1'' (Some Xml) (answering xml_response) =
     (Inr (Text ''<inv/>''),
      (answering xml_response)
        \<lparr>sent := [\<lparr>url = ''https://www.rechnungs-api.de/api/v1/documents/doc_1?format=xml'',
                    verb = GET, req_headers = headers example_client, req_body = None\<rparr>]\<rparr>)
   \<and> fst (readDocument example_client ''doc_1'' (Some Pdf) (answering xml_response))
       = Inr (Binary [60, 105, 110, 118, 47, 62])
   \<and> fst (readDocument example_client ''doc_1'' (Some Json) (answering ok_response))
       = Inr (Parsed (JObject []))"
proof -
  have a: "service (answering r) (sent (answering r)) req = Responded r" for r req
    by (simp add: answering_simps)
  have x: "readDocument example_client ''doc_1'' (Some Xml) (answering xml_response) =
     (Inr (Text ''<inv/>''),
      (answering xml_response)
        \<lparr>sent := [\<lparr>url = ''https://www.rechnungs-api.de/api/v1/documents/doc_1?format=xml'',
                    verb = GET, req_headers = headers example_client, req_body = None\<rparr>]\<rparr>)"
    using readDocument_decoding_by_format [OF a ok_more_examples(1), of example_client "''doc_1''" "Some Xml"]
    by (simp add: example_baseUrl answering_simps) (simp add: xml_response_def)
  have p: "fst (readDocument example_client ''doc_1'' (Some Pdf) (answering xml_response))
       = Inr (Binary [60, 105, 110, 118, 47, 62])"
    using readDocument_decoding_by_format [OF a ok_more_examples(1), of example_client "''doc_1''" "Some Pdf"]
    by (simp add: xml_response_def)
  have j: "fst (readDocument example_client ''doc_1'' (Some Json) (answering ok_response))
       = Inr (Parsed (JObject []))"
    using readDocument_decoding_by_format [OF a ok_examples(1), of example_client "''doc_1''" "Some Json"]
    by (simp add: ok_response_def Response_json_def)
  from x p j show ?thesis by blast
qed

text \<open>
  C2. Called without a format, \<open>readDocument\<close> takes \<open>json\<close>: the request carries
  \<open>format=json\<close> and a successful response comes back as the parsed document. The
  overload signature for the call without a format declares an \<open>ArrayBuffer\<close>, where
  the one for an explicit \<open>json\<close> declares a \<open>Document\<close>, so the value returned is not
  of the type declared for that call.
\<close>

theorem readDocument_without_format_declared_ArrayBuffer:
  "map_of readDocument_overloads None = Some TArrayBuffer
   \<and> map_of readDocument_overloads (Some Json) = Some TDocument
   \<and> fst (readDocument example_client ''doc_1'' None (answering ok_response)) = Inr (Parsed (JObject []))
   \<and> repr_type_of (Parsed (JObject [])) = TDocument
   \<and> map url (sent (snd (readDocument example_client ''doc_1'' None (answering ok_response))))
       = [''https://www.rechnungs-api.de/api/v1/documents/doc_1?format=json'']"
  by (simp add: readDocument_overloads_def readDocument_settle settle_def answering_simps
      ok_examples example_baseUrl get_request_def)
    (simp add: ok_response_def Response_json_def answering_def)

subsection \<open>Responses outside the success range (C3, C9)\<close>

text \<open>
  C3, as the code has it. For every method, when the response to its request has a status
  outside 200..299 and a body that is valid JSON, the method throws one \<open>ApiError\<close> whose
  \<open>status\<close> is the response status and whose \<open>body\<close> is the parsed body; the method
  has sent exactly that one request. The rule is the same for every method and every
  status.
\<close>

theorem non_success_json_body_throws_ApiError:
  assumes "invoke this c w = (res, w')" and "req \<in> set (issued w w')"
    and "service w (sent w) req = Responded r" and "\<not> ok r" and "resp_json r = Some b"
  shows "res = Inl (Thrown \<lparr>status = resp_status r, body = b\<rparr>) \<and> issued w w' = [req]"
  using invoke_request(2,3) [OF assms(1,2)]
    settle_not_ok [OF assms(3,4), where decode = "decode_of c"] assms(5)
  by simp

theorem non_success_json_body_throws_ApiError_witness:
  "fst (invoke example_client (CreateLedgerAccount ''ledger_1'' (JObject [])) (answering not_found_response))
     = Inl (Thrown \<lparr>status = 404, body = JObject []\<rparr>)
   \<and> length (issued (answering not_found_response)
        (snd (invoke example_client (CreateLedgerAccount ''ledger_1'' (JObject []))
               (answering not_found_response)))) = 1"
proof -
  let ?c = "CreateLedgerAccount ''ledger_1'' (JObject [])"
  let ?w = "answering not_found_response"
  obtain res w' where run: "invoke example_client ?c ?w = (res, w')"
    by (cases "invoke example_client ?c ?w")
  obtain req where req: "request_of example_client ?c = Inr req" by simp
  have w': "w' = snd (settle (decode_of ?c) req ?w)"
    using run req by (simp add: invoke_settle)
  have mem: "req \<in> set (issued ?w w')" unfolding w' issued_settle by simp
  have resp: "service ?w (sent ?w) req = Responded not_found_response"
    by (simp add: answering_simps)
  have j: "resp_json not_found_response = Some (JObject [])"
    by (simp add: not_found_response_def)
  have s: "resp_status not_found_response = 404" by (simp add: not_found_response_def)
  from non_success_json_body_throws_ApiError [OF run mem resp ok_examples(2) j] run s
  show ?thesis by simp
qed

text \<open>
  C3 as stated, for every response outside the success range, fails: a 502 whose body is
  HTML makes \<open>createDocument\<close> throw a \<open>SyntaxError\<close>, not an \<open>ApiError\<close>.
\<close>

theorem non_json_error_body_counterexample:
  "\<not> ok bad_gateway_response
   \<and> fst (invoke example_client (CreateDocument (JObject [])) (answering bad_gateway_response))
       = Inl SyntaxError
   \<and> \<not> is_ApiError
       (fst (invoke example_client (CreateDocument (JObject [])) (answering bad_gateway_response)))"
proof -
  have "fst (invoke example_client (CreateDocument (JObject [])) (answering bad_gateway_response))
       = Inl SyntaxError"
    by (simp add: createDocument_def fetch_def as_parsed_def answering_def ok_examples
        throw_await_def fromResponse_def Response_json_def bad_gateway_response_def)
  then show ?thesis using ok_examples(3) by simp
qed

text \<open>
  C9. For every method, when the response to its request has a status outside 200..299
  and a body that is not valid JSON, the method throws the \<open>SyntaxError\<close> of
  \<open>response.json()\<close> and no \<open>ApiError\<close>: \<open>ApiError.fromResponse\<close> parses the body
  whatever it is, and nothing catches the failure.
\<close>

theorem non_success_non_json_body_throws_SyntaxError:
  assumes "invoke this c w = (res, w')" and "req \<in> set (issued w w')"
    and "service w (sent w) req = Responded r" and "\<not> ok r" and "resp_json r = None"
  shows "res = Inl SyntaxError \<and> \<not> is_ApiError res"
  using invoke_request(3) [OF assms(1,2)]
    settle_not_ok [OF assms(3,4), where decode = "decode_of c"] assms(5)
  by simp

theorem non_success_non_json_body_throws_SyntaxError_witness:
  "fst (invoke example_client (DeleteLedger ''ledger_1'') (answering bad_gateway_response))
     = Inl SyntaxError"
proof -
  let ?c = "DeleteLedger ''ledger_1''"
  let ?w = "answering bad_gateway_response"
  obtain res w' where run: "invoke example_client ?c ?w = (res, w')"
    by (cases "invoke example_client ?c ?w")
  obtain req where req: "request_of example_client ?c = Inr req" by simp
  have w': "w' = snd (settle (decode_of ?c) req ?w)"
    using run req by (simp add: invoke_settle)
  have mem: "req \<in> set (issued ?w w')" unfolding w' issued_settle by simp
  have resp: "service ?w (sent ?w) req = Responded bad_gateway_response"
    by (simp add: answering_simps)
  have j: "resp_json bad_gateway_response = None"
    by (simp add: bad_gateway_response_def)
  from non_success_non_json_body_throws_SyntaxError [OF run mem resp ok_examples(3) j] run
  show ?thesis by simp
qed

subsection \<open>Requests (C5, C6, C7, C8)\<close>




text \<open>
  C6. Every request any method sends carries an \<open>Authorization\<close> header whose value is
  \<open>ApiKey\<close>, a space, and the API key given to the constructor.
\<close>

theorem every_request_carries_the_api_key:
  assumes "invoke (Client_new cfg) c w = (res, w')" and "req \<in> set (issued w w')"
  shows "map_of (req_headers req) ''Authorization'' = Some (''ApiKey '' @ cfg_apiKey cfg)"
proof -
  have "request_of (Client_new cfg) c = Inr req"
    by (rule invoke_request(1) [OF assms])
  then have "req_headers req = headers (Client_new cfg)" by (rule request_of_headers)
  then show ?thesis by (simp add: headers_Authorization Client_new_simps)
qed

theorem every_request_carries_the_api_key_witness:
  "map (\<lambda>req. map_of (req_headers req) ''Authorization'')
     (issued (answering ok_response)
       (snd (invoke (Client_new \<lparr>cfg_apiKey = ''secret'', cfg_baseUrl = None\<rparr>)
               (ListLedgers [(''limit'', PNumber (Integer 10))]) (answering ok_response))))
   = [Some ''ApiKey secret'']"
proof -
  let ?cl = "Client_new \<lparr>cfg_apiKey = ''secret'', cfg_baseUrl = None\<rparr>"
  let ?c = "ListLedgers [(''limit'', PNumber (Integer 10))]"
  let ?w = "answering ok_response"
  obtain res w' where run: "invoke ?cl ?c ?w = (res, w')" by (cases "invoke ?cl ?c ?w")
  have q: "queryParamsToString (Some [(''limit'', PNumber (Integer 10))]) = Inr ''limit=10''"
    by code_simp
  obtain req where req: "request_of ?cl ?c = Inr req" by (simp add: q)
  have iss: "issued ?w w' = [req]"
    using invoke_issued [OF run] req by simp
  then have mem: "req \<in> set (issued ?w w')" by simp
  from every_request_carries_the_api_key [OF run mem] iss run
  show ?thesis by simp
qed




text \<open>
  C8. Whatever calls are made on a client, in whatever order, every request goes to a URL
  under the base URL fixed by the constructor (the production root
  \<open>https://www.rechnungs-api.de/api/v1\<close> when none was given, else the one given) and
  carries the key given to the constructor.
\<close>

theorem base_url_fixed_at_construction:
  assumes "run (Client_new cfg) cs w = (rs, w')" and "req \<in> set (issued w w')"
  shows "prefix ((case cfg_baseUrl cfg of
                    None \<Rightarrow> ''https://www.rechnungs-api.de/api/v1''
                  | Some b \<Rightarrow> b) @ ''/'') (url req)
       \<and> map_of (req_headers req) ''Authorization'' = Some (''ApiKey '' @ cfg_apiKey cfg)"
proof -
  from run_issued [OF assms] obtain c where
    r: "request_of (Client_new cfg) c = Inr req" by blast
  have "prefix (baseUrl (Client_new cfg) @ ''/'') (url req)" by (rule request_of_url [OF r])
  moreover have "req_headers req = headers (Client_new cfg)" by (rule request_of_headers [OF r])
  ultimately show ?thesis by (simp add: headers_Authorization Client_new_simps)
qed

theorem base_url_fixed_at_construction_witness:
  "list_all (\<lambda>req. prefix ''https://www.rechnungs-api.de/api/v1/'' (url req))
     (issued (answering ok_response)
       (snd (run (Client_new \<lparr>cfg_apiKey = ''secret'', cfg_baseUrl = None\<rparr>)
               [CreateLedger, DeleteLedger ''ledger_1''] (answering ok_response))))
   \<and> map url (issued (answering ok_response)
       (snd (run (Client_new \<lparr>cfg_apiKey = ''secret'', cfg_baseUrl = None\<rparr>)
               [CreateLedger, DeleteLedger ''ledger_1''] (answering ok_response))))
     = [''https://www.rechnungs-api.de/api/v1/ledgers'',
        ''https://www.rechnungs-api.de/api/v1/ledgers/ledger_1'']"
proof -
  let ?w = "answering ok_response"
  let ?cs = "[CreateLedger, DeleteLedger ''ledger_1'']"
  let ?cfg = "\<lparr>cfg_apiKey = ''secret'', cfg_baseUrl = None\<rparr>"
  have urls: "map url (issued ?w (snd (run (Client_new ?cfg) ?cs ?w)))
      = [baseUrl (Client_new ?cfg) @ ''/ledgers'', baseUrl (Client_new ?cfg) @ ''/ledgers/ledger_1'']"
    by (simp add: invoke_settle settle_def issued_def answering_def post_request_def
        delete_request_def)
  obtain rs w' where run: "run (Client_new ?cfg) ?cs ?w = (rs, w')"
    by (cases "run (Client_new ?cfg) ?cs ?w")
  have w': "snd (run (Client_new ?cfg) ?cs ?w) = w'" using run by (simp del: run.simps)
  have "\<forall>req\<in>set (issued ?w w').
      prefix ((case cfg_baseUrl ?cfg of None \<Rightarrow> ''https://www.rechnungs-api.de/api/v1'' | Some b \<Rightarrow> b) @ ''/'') (url req)"
    using base_url_fixed_at_construction [OF run] by blast
  then have all: "list_all (\<lambda>req. prefix ''https://www.rechnungs-api.de/api/v1/'' (url req))
      (issued ?w w')"
    by (simp add: list_all_iff)
  have "map url (issued ?w w') = [''https://www.rechnungs-api.de/api/v1/ledgers'',
        ''https://www.rechnungs-api.de/api/v1/ledgers/ledger_1'']"
    using urls unfolding w' by (simp add: Client_new_simps)
  with all show ?thesis unfolding w' by (rule conjI)
qed

end
